theory Spec2Isabelle
  imports Complex_Main
begin

section \<open>NumPy values\<close>

text \<open>
  A float64 value is a NaN, an infinity or a finite number. Every finite double is a
  real number, and comparisons of doubles are exact, so the finite values are modelled
  by \<open>real\<close> (the two zeros are one value); the comparisons follow IEEE 754: every
  ordered comparison and \<open>==\<close> with a NaN operand is False.
\<close>

datatype npfloat = NaN | NegInf | Fin real | PosInf

text \<open>
  A decimal literal of the source denotes the double nearest to it. \<open>1.25\<close>, \<open>0.5\<close> and the
  integers are doubles themselves; these are the values of the other literals.
\<close>

definition f64_0_4 :: real where "f64_0_4 = 3602879701896397 / 2 ^ 53"

definition f64_0_2 :: real where "f64_0_2 = 3602879701896397 / 2 ^ 54"

definition f64_0_35 :: real where "f64_0_35 = 3152519739159347 / 2 ^ 53"

definition f64_0_9 :: real where "f64_0_9 = 8106479329266893 / 2 ^ 53"

definition f64_0_3 :: real where "f64_0_3 = 5404319552844595 / 2 ^ 54"

definition f64_0_7 :: real where "f64_0_7 = 3152519739159347 / 2 ^ 52"

fun fl_lt :: "npfloat \<Rightarrow> npfloat \<Rightarrow> bool" where
  "fl_lt NaN b = False"
| "fl_lt a NaN = False"
| "fl_lt NegInf NegInf = False"
| "fl_lt NegInf b = True"
| "fl_lt (Fin x) (Fin y) = (x < y)"
| "fl_lt (Fin x) PosInf = True"
| "fl_lt (Fin x) NegInf = False"
| "fl_lt PosInf b = False"

definition fl_gt :: "npfloat \<Rightarrow> npfloat \<Rightarrow> bool" where
  "fl_gt a b = fl_lt b a"

definition fl_eq :: "npfloat \<Rightarrow> npfloat \<Rightarrow> bool" where
  "fl_eq a b = (a \<noteq> NaN \<and> b \<noteq> NaN \<and> a = b)"

definition fl_le :: "npfloat \<Rightarrow> npfloat \<Rightarrow> bool" where
  "fl_le a b = (fl_lt a b \<or> fl_eq a b)"

definition fl_ge :: "npfloat \<Rightarrow> npfloat \<Rightarrow> bool" where
  "fl_ge a b = (fl_lt b a \<or> fl_eq a b)"

fun isnan :: "npfloat \<Rightarrow> bool" where
  "isnan NaN = True"
| "isnan a = False"

text \<open>
  An array is modelled by its elements in C order; its shape is represented by the
  number of elements. A 4-D diffusion volume is the list of its 3-D volumes along the
  last axis, so that \<open>data[..., v]\<close> is \<open>vols data ! v\<close>, together with the size of the
  spatial shape \<open>data.shape[:-1]\<close>.
\<close>

record arr4 =
  nvox :: nat
  vols :: "npfloat list list"

subsection \<open>Exceptions\<close>

datatype py_error = ValueError | IndexError | TypeError

subsection \<open>Array operations\<close>

text \<open>Elementwise comparisons of an array with a scalar, and \<open>np.isnan\<close>.\<close>

definition np_lt :: "npfloat list \<Rightarrow> npfloat \<Rightarrow> bool list" where
  "np_lt a c = map (\<lambda>x. fl_lt x c) a"

definition np_gt :: "npfloat list \<Rightarrow> npfloat \<Rightarrow> bool list" where
  "np_gt a c = map (\<lambda>x. fl_gt x c) a"

definition np_eq :: "npfloat list \<Rightarrow> npfloat \<Rightarrow> bool list" where
  "np_eq a c = map (\<lambda>x. fl_eq x c) a"

definition np_isnan :: "npfloat list \<Rightarrow> bool list" where
  "np_isnan a = map isnan a"

definition np_ones :: "nat \<Rightarrow> bool list" where
  "np_ones n = replicate n True"

definition np_zeros :: "nat \<Rightarrow> nat \<Rightarrow> arr4" where
  "np_zeros n k = \<lparr>nvox = n, vols = replicate k (replicate n (Fin 0))\<rparr>"

text \<open>
  \<open>a.clip(min=lo)\<close> is the elementwise maximum of \<open>a\<close> and \<open>lo\<close>, which propagates NaN.
\<close>

definition clip_min :: "npfloat \<Rightarrow> npfloat \<Rightarrow> npfloat" where
  "clip_min x lo = (if isnan x \<or> isnan lo then NaN else if fl_lt x lo then lo else x)"

definition np_clip_min :: "npfloat list list \<Rightarrow> npfloat \<Rightarrow> npfloat list list" where
  "np_clip_min a lo = map (map (\<lambda>x. clip_min x lo)) a"

text \<open>Integer label arrays: \<open>labels == k\<close> and the elementwise \<open>|\<close> of two boolean arrays.\<close>

definition np_eq_int :: "int list \<Rightarrow> int \<Rightarrow> bool list" where
  "np_eq_int a k = map (\<lambda>x. x = k) a"

definition np_or :: "bool list \<Rightarrow> bool list \<Rightarrow> py_error + bool list" where
  "np_or a b = (if length a \<noteq> length b then Inl ValueError else Inr (map2 (\<or>) a b))"

fun and_then :: "py_error + 'a \<Rightarrow> ('a \<Rightarrow> py_error + 'b) \<Rightarrow> py_error + 'b" where
  "and_then (Inl e) f = Inl e"
| "and_then (Inr x) f = f x"

text \<open>
  \<open>a[idx] = v\<close> with a boolean index array: every element of \<open>a\<close> whose index element
  is True becomes \<open>v\<close>. NumPy raises IndexError when the boolean index does not match
  the shape of the indexed array.
\<close>

definition setitem_mask :: "'a list \<Rightarrow> bool list \<Rightarrow> 'a \<Rightarrow> py_error + 'a list" where
  "setitem_mask a idx v =
     (if length idx \<noteq> length a then Inl IndexError
      else Inr (map2 (\<lambda>x b. if b then v else x) a idx))"

text \<open>
  \<open>a[..., v] = rhs\<close> on a 4-D array: volume \<open>v\<close> is overwritten. Out of range the index
  raises IndexError; a right-hand side of another shape raises ValueError.
\<close>

definition setitem_last :: "arr4 \<Rightarrow> nat \<Rightarrow> npfloat list \<Rightarrow> py_error + arr4" where
  "setitem_last a v rhs =
     (if v \<ge> length (vols a) then Inl IndexError
      else if length rhs \<noteq> nvox a then Inl ValueError
      else Inr (a\<lparr>vols := (vols a)[v := rhs]\<rparr>))"

definition getitem_last :: "arr4 \<Rightarrow> nat \<Rightarrow> py_error + npfloat list" where
  "getitem_last a v = (if v \<ge> length (vols a) then Inl IndexError else Inr (vols a ! v))"

section \<open>The library\<close>

text \<open>
  The notebooks call DIPY, NumPy, SciPy and Matplotlib. What a claim depends on elementwise
  (comparisons, boolean-mask assignment, \<open>clip\<close>) is modelled above and below; every other
  library function is a parameter: a field of the record \<open>dipy\<close>, an arbitrary total
  function of its arguments. Library objects (affines, gradient tables, models, fits,
  spheres, actors) are values of one opaque type \<open>'o\<close>.

  \<open>get_fnames\<close> returns the tuple of paths of a dataset (one path for \<open>stanford_labels\<close>);
  \<open>load_nifti_img\<close> is \<open>load_nifti\<close> with \<open>return_img=True\<close>. The arguments of \<open>median_otsu\<close>
  are the volume, \<open>vol_idx\<close>, \<open>median_radius\<close>, \<open>numpass\<close>, \<open>autocrop\<close> and \<open>dilate\<close>, with
  \<open>None\<close> for a keyword the call leaves out. \<open>fl_mul\<close> and \<open>fl_div\<close> are the float operations
  \<open>*\<close> and \<open>/\<close>, with their rounding. \<open>dki_fit\<close>, \<open>micro_fit\<close> and \<open>csa_model_fit\<close> are the
  method \<open>fit(data, mask=...)\<close> of the three models; \<open>linearity\<close>, \<open>planarity\<close>,
  \<open>sphericity\<close>, \<open>mk\<close>, \<open>awf\<close>, \<open>tortuosity\<close>, \<open>gfa\<close> and \<open>fit_odf\<close> (\<open>odf(sphere)\<close>) read
  a map off a fit. \<open>axial_T a k\<close> is the slice \<open>a[:, :, k].T\<close>. \<open>Scene\<close> is \<open>window.Scene()\<close>
  and \<open>scene_add\<close> the scene after \<open>scene.add(actor)\<close>.
\<close>

type_synonym point = "real \<times> real \<times> real"

datatype space = RASMM | VOXMM | VOX

record 'o dipy =
  get_fnames :: "string \<Rightarrow> string list"
  load_nifti :: "string \<Rightarrow> arr4 \<times> 'o"
  load_nifti_img :: "string \<Rightarrow> arr4 \<times> 'o \<times> 'o"
  load_nifti_data :: "string \<Rightarrow> int list"
  read_bvals_bvecs :: "string \<Rightarrow> string \<Rightarrow> 'o \<times> 'o"
  gradient_table :: "'o \<Rightarrow> 'o \<Rightarrow> 'o"
  median_otsu :: "arr4 \<Rightarrow> nat list \<Rightarrow> nat option \<Rightarrow> nat \<Rightarrow> bool option \<Rightarrow> nat
                    \<Rightarrow> arr4 \<times> bool list"
  np_log :: "npfloat \<Rightarrow> npfloat"
  np_sqrt :: "npfloat \<Rightarrow> npfloat"
  fl_mul :: "npfloat \<Rightarrow> npfloat \<Rightarrow> npfloat"
  fl_div :: "npfloat \<Rightarrow> npfloat \<Rightarrow> npfloat"
  gaussian_filter :: "npfloat list \<Rightarrow> npfloat \<Rightarrow> npfloat list"
  KurtosisMicrostructureModel :: "'o \<Rightarrow> 'o"
  DiffusionKurtosisModel :: "'o \<Rightarrow> 'o"
  dki_fit :: "'o \<Rightarrow> arr4 \<Rightarrow> bool list \<Rightarrow> 'o"
  linearity :: "'o \<Rightarrow> npfloat list"
  planarity :: "'o \<Rightarrow> npfloat list"
  sphericity :: "'o \<Rightarrow> npfloat list"
  mk :: "'o \<Rightarrow> int \<Rightarrow> int \<Rightarrow> npfloat list"
  micro_fit :: "'o \<Rightarrow> arr4 \<Rightarrow> bool list \<Rightarrow> 'o"
  awf :: "'o \<Rightarrow> npfloat list"
  tortuosity :: "'o \<Rightarrow> npfloat list"
  axial_T :: "npfloat list \<Rightarrow> nat \<Rightarrow> npfloat list"
  get_sphere :: "string \<Rightarrow> 'o"
  CsaOdfModel :: "'o \<Rightarrow> nat \<Rightarrow> 'o"
  csa_model_fit :: "'o \<Rightarrow> arr4 \<Rightarrow> bool list \<Rightarrow> 'o"
  fit_odf :: "'o \<Rightarrow> 'o \<Rightarrow> npfloat list list"
  gfa :: "'o \<Rightarrow> npfloat list"
  from_pmf :: "npfloat list list \<Rightarrow> npfloat \<Rightarrow> 'o \<Rightarrow> 'o"
  seeds_from_mask :: "bool list \<Rightarrow> 'o \<Rightarrow> nat list \<Rightarrow> point list"
  ThresholdStoppingCriterion :: "npfloat list \<Rightarrow> npfloat \<Rightarrow> 'o"
  LocalTracking :: "'o \<Rightarrow> 'o \<Rightarrow> point list \<Rightarrow> 'o \<Rightarrow> npfloat \<Rightarrow> 'o"
  Streamlines :: "'o \<Rightarrow> 'o"
  has_fury :: bool
  line_colors :: "'o \<Rightarrow> 'o"
  actor_line :: "'o \<Rightarrow> 'o \<Rightarrow> 'o"
  Scene :: "'o"
  scene_add :: "'o \<Rightarrow> 'o \<Rightarrow> 'o"
  StatefulTractogram :: "'o \<Rightarrow> 'o \<Rightarrow> space \<Rightarrow> 'o"

section \<open>Notebook state\<close>

text \<open>
  A Matplotlib figure is the list of the drawing calls made on it, with their arguments;
  an image handle (\<open>im0\<close>) is the position of its \<open>imshow\<close> in that list. \<open>Subplots\<close> has
  the grid and the figure size (the \<open>subplot_kw\<close> that hides the ticks is not recorded);
  \<open>Imshow\<close> the axis, the image, \<open>cmap\<close>, \<open>alpha\<close>, \<open>vmin\<close>, \<open>vmax\<close>, \<open>interpolation\<close> and
  \<open>origin\<close>; \<open>Colorbar\<close> the image handle and the axis. What a notebook writes is a figure,
  a still of a scene with its size, or a tractogram with the streamlines passed along.
\<close>

datatype draw =
    Subplots nat nat nat nat
  | Imshow nat "npfloat list" string "npfloat option" "npfloat option" "npfloat option"
      string string
  | Colorbar nat nat

datatype 'o artifact = Figure "draw list" | Still 'o nat nat | Tractogram 'o 'o

text \<open>
  The state of a running notebook: its global variables and what it has done so far.
  \<open>calls\<close> is the sequence of operations executed, by the name the source calls them;
  \<open>opened\<close> the paths handed to a function that reads a file; \<open>written\<close> the paths, with
  the object saved, handed to a function that writes one. Float arrays obtained from a
  fit live in a store, \<open>arrays\<close>, and the variables hold their addresses: an in-place
  assignment writes the store at the variable's address, a binding allocates at \<open>fresh\<close>.
  The variables common to both notebooks come first. In the WMTI state, \<open>smoothed\<close>
  lists the indices \<open>v\<close> of the assignments \<open>data_smooth[..., v] = ...\<close> executed; the loop
  variable \<open>v\<close> and the axes \<open>ax\<close> are not kept as variables.
\<close>

record 'o nb_state =
  calls :: "string list"
  opened :: "string list"
  written :: "(string \<times> 'o artifact) list"
  arrays :: "nat \<Rightarrow> npfloat list"
  fresh :: nat
  data :: arr4
  affine :: 'o
  bvals :: 'o
  bvecs :: 'o
  gtab :: 'o
  maskdata :: arr4
  mask :: "bool list"

record 'o wmti_state = "'o nb_state" +
  fraw :: string
  fbval :: string
  fbvec :: string
  t1_fname :: string
  fwhm :: npfloat
  gauss_std :: npfloat
  data_smooth :: arr4
  smoothed :: "nat list"
  dki_micro_model :: 'o
  dkimodel :: 'o
  dkifit :: 'o
  well_aligned_mask :: "bool list"
  cl :: nat
  cp :: nat
  cs :: nat
  dki_micro_fit :: 'o
  AWF :: nat
  TORT :: nat
  MK :: nat
  axial_slice :: nat
  fig1 :: "draw list"
  im0 :: nat
  im1 :: nat

definition called :: "string \<Rightarrow> ('o, 'z) nb_state_scheme \<Rightarrow> ('o, 'z) nb_state_scheme" where
  "called f s = s\<lparr>calls := calls s @ [f]\<rparr>"

definition reading :: "string \<Rightarrow> ('o, 'z) nb_state_scheme \<Rightarrow> ('o, 'z) nb_state_scheme" where
  "reading p s = s\<lparr>opened := opened s @ [p]\<rparr>"

definition writing ::
  "string \<Rightarrow> 'o artifact \<Rightarrow> ('o, 'z) nb_state_scheme \<Rightarrow> ('o, 'z) nb_state_scheme" where
  "writing p x s = s\<lparr>written := written s @ [(p, x)]\<rparr>"

definition new_array ::
  "npfloat list \<Rightarrow> ('o, 'z) nb_state_scheme \<Rightarrow> ('o, 'z) nb_state_scheme" where
  "new_array a s = s\<lparr>arrays := (arrays s)(fresh s := a), fresh := Suc (fresh s)\<rparr>"

text \<open>
  A cell is the list of its statements, each a function from the state to an exception or
  the next state; running the cell stops at the first exception, and nothing catches one.
  \<open>states_of\<close> lists the state after each statement that completed.
\<close>

fun run :: "('s \<Rightarrow> py_error + 's) list \<Rightarrow> 's \<Rightarrow> py_error + 's" where
  "run [] s = Inr s"
| "run (f # fs) s = and_then (f s) (run fs)"

fun states_of :: "('s \<Rightarrow> py_error + 's) list \<Rightarrow> 's \<Rightarrow> 's list" where
  "states_of [] s = []"
| "states_of (f # fs) s = (case f s of Inl e \<Rightarrow> [] | Inr t \<Rightarrow> t # states_of fs t)"

fun for_range :: "nat list \<Rightarrow> (nat \<Rightarrow> 's \<Rightarrow> py_error + 's) \<Rightarrow> 's \<Rightarrow> py_error + 's" where
  "for_range [] body s = Inr s"
| "for_range (i # is) body s = and_then (body i s) (for_range is body)"

section \<open>The WMTI notebook\<close>

text \<open>
  The code cells, numbered by their execution count (cell 1 holds the imports only).
  Cell 2: fetching and loading the CFIN multi-shell dataset. Unpacking a tuple of another
  length raises ValueError.
\<close>

definition wmti_cell2 :: "'o dipy \<Rightarrow> ('o wmti_state \<Rightarrow> py_error + 'o wmti_state) list" where
  "wmti_cell2 L =
    [\<lambda>s. (case get_fnames L ''cfin_multib'' of
            [a, b, c, d] \<Rightarrow>
              Inr (called ''get_fnames'' (s\<lparr>fraw := a, fbval := b, fbvec := c, t1_fname := d\<rparr>))
          | _ \<Rightarrow> Inl ValueError),
     \<lambda>s. (case load_nifti L (fraw s) of
            (d, a) \<Rightarrow> Inr (called ''load_nifti'' (reading (fraw s) (s\<lparr>data := d, affine := a\<rparr>)))),
     \<lambda>s. (case read_bvals_bvecs L (fbval s) (fbvec s) of
            (x, y) \<Rightarrow>
              Inr (called ''read_bvals_bvecs''
                (reading (fbvec s) (reading (fbval s) (s\<lparr>bvals := x, bvecs := y\<rparr>))))),
     \<lambda>s. Inr (called ''gradient_table'' (s\<lparr>gtab := gradient_table L (bvals s) (bvecs s)\<rparr>))]"

text \<open>Cell 3: brain mask, then Gaussian smoothing of every volume.\<close>

definition smooth_volume :: "'o dipy \<Rightarrow> nat \<Rightarrow> 'o wmti_state \<Rightarrow> py_error + 'o wmti_state" where
  "smooth_volume L v s =
     and_then (getitem_last (data s) v) (\<lambda>vol.
     and_then (setitem_last (data_smooth s) v (gaussian_filter L vol (gauss_std s))) (\<lambda>d.
       Inr (called ''gaussian_filter'' (s\<lparr>data_smooth := d, smoothed := smoothed s @ [v]\<rparr>))))"

definition wmti_cell3 :: "'o dipy \<Rightarrow> ('o wmti_state \<Rightarrow> py_error + 'o wmti_state) list" where
  "wmti_cell3 L =
    [\<lambda>s. (case median_otsu L (data s) [0, 1] (Some 4) 2 (Some False) 1 of
            (md, m) \<Rightarrow> Inr (called ''median_otsu'' (s\<lparr>maskdata := md, mask := m\<rparr>))),
     \<lambda>s. Inr (s\<lparr>fwhm := Fin 1.25\<rparr>),
     \<lambda>s. Inr (called ''np.sqrt'' (called ''np.log''
          (s\<lparr>gauss_std := fl_div L (fwhm s) (np_sqrt L (fl_mul L (Fin 8) (np_log L (Fin 2))))\<rparr>))),
     \<lambda>s. Inr (called ''np.zeros''
          (s\<lparr>data_smooth := np_zeros (nvox (data s)) (length (vols (data s)))\<rparr>)),
     \<lambda>s. for_range [0 ..< length (vols (data s))] (smooth_volume L) s]"

text \<open>Cell 4: the microstructure model.\<close>

definition wmti_cell4 :: "'o dipy \<Rightarrow> ('o wmti_state \<Rightarrow> py_error + 'o wmti_state) list" where
  "wmti_cell4 L =
    [\<lambda>s. Inr (called ''KurtosisMicrostructureModel''
          (s\<lparr>dki_micro_model := KurtosisMicrostructureModel L (gtab s)\<rparr>))]"

text \<open>
  Cell 5: the DKI fit and the selection of the voxels of well-aligned fibres.
\<close>

definition wmti_cell5 :: "'o dipy \<Rightarrow> ('o wmti_state \<Rightarrow> py_error + 'o wmti_state) list" where
  "wmti_cell5 L =
    [\<lambda>s. Inr (called ''DiffusionKurtosisModel''
          (s\<lparr>dkimodel := DiffusionKurtosisModel L (gtab s)\<rparr>)),
     \<lambda>s. Inr (called ''dkimodel.fit''
          (s\<lparr>dkifit := dki_fit L (dkimodel s) (data_smooth s) (mask s)\<rparr>)),
     \<lambda>s. Inr (called ''np.ones''
          (s\<lparr>well_aligned_mask := np_ones (nvox (data s))\<rparr>)),
     \<lambda>s. Inr (called ''dkifit.linearity''
          (new_array (linearity L (dkifit s)) (s\<lparr>cl := fresh s\<rparr>))),
     \<lambda>s. and_then (setitem_mask (well_aligned_mask s) (np_lt (arrays s (cl s)) (Fin f64_0_4)) False)
          (\<lambda>m. Inr (called ''well_aligned_mask[cl < 0.4] = False''
             (s\<lparr>well_aligned_mask := m\<rparr>))),
     \<lambda>s. Inr (called ''dkifit.planarity''
          (new_array (planarity L (dkifit s)) (s\<lparr>cp := fresh s\<rparr>))),
     \<lambda>s. and_then (setitem_mask (well_aligned_mask s) (np_gt (arrays s (cp s)) (Fin f64_0_2)) False)
          (\<lambda>m. Inr (called ''well_aligned_mask[cp > 0.2] = False''
             (s\<lparr>well_aligned_mask := m\<rparr>))),
     \<lambda>s. Inr (called ''dkifit.sphericity''
          (new_array (sphericity L (dkifit s)) (s\<lparr>cs := fresh s\<rparr>))),
     \<lambda>s. and_then (setitem_mask (well_aligned_mask s) (np_gt (arrays s (cs s)) (Fin f64_0_35)) False)
          (\<lambda>m. Inr (called ''well_aligned_mask[cs > 0.35] = False''
             (s\<lparr>well_aligned_mask := m\<rparr>))),
     \<lambda>s. and_then (setitem_mask (well_aligned_mask s) (np_isnan (arrays s (cl s))) False)
          (\<lambda>m. Inr (called ''well_aligned_mask[np.isnan(cl)] = False''
             (s\<lparr>well_aligned_mask := m\<rparr>))),
     \<lambda>s. and_then (setitem_mask (well_aligned_mask s) (np_isnan (arrays s (cp s))) False)
          (\<lambda>m. Inr (called ''well_aligned_mask[np.isnan(cp)] = False''
             (s\<lparr>well_aligned_mask := m\<rparr>))),
     \<lambda>s. and_then (setitem_mask (well_aligned_mask s) (np_isnan (arrays s (cs s))) False)
          (\<lambda>m. Inr (called ''well_aligned_mask[np.isnan(cs)] = False''
             (s\<lparr>well_aligned_mask := m\<rparr>)))]"

text \<open>Cell 6: the microstructure fit on the selected voxels.\<close>

definition wmti_cell6 :: "'o dipy \<Rightarrow> ('o wmti_state \<Rightarrow> py_error + 'o wmti_state) list" where
  "wmti_cell6 L =
    [\<lambda>s. Inr (called ''dki_micro_model.fit''
          (s\<lparr>dki_micro_fit :=
               micro_fit L (dki_micro_model s) (data_smooth s) (well_aligned_mask s)\<rparr>))]"

text \<open>Cell 7: axonal water fraction and tortuosity.\<close>

definition wmti_cell7 :: "'o dipy \<Rightarrow> ('o wmti_state \<Rightarrow> py_error + 'o wmti_state) list" where
  "wmti_cell7 L =
    [\<lambda>s. Inr (called ''dki_micro_fit.awf''
          (new_array (awf L (dki_micro_fit s)) (s\<lparr>AWF := fresh s\<rparr>))),
     \<lambda>s. Inr (called ''dki_micro_fit.tortuosity''
          (new_array (tortuosity L (dki_micro_fit s)) (s\<lparr>TORT := fresh s\<rparr>)))]"

text \<open>Cell 8: the figure, saved as a PNG.\<close>

definition wmti_cell8 :: "'o dipy \<Rightarrow> ('o wmti_state \<Rightarrow> py_error + 'o wmti_state) list" where
  "wmti_cell8 L =
    [\<lambda>s. Inr (called ''dkifit.mk'' (new_array (mk L (dkifit s) 0 3) (s\<lparr>MK := fresh s\<rparr>))),
     \<lambda>s. Inr (s\<lparr>axial_slice := 9\<rparr>),
     \<lambda>s. Inr (called ''plt.subplots'' (s\<lparr>fig1 := [Subplots 1 2 9 4]\<rparr>)),
     \<lambda>s. and_then (setitem_mask (arrays s (AWF s)) (np_eq (arrays s (AWF s)) (Fin 0)) NaN)
          (\<lambda>a. Inr (called ''AWF[AWF == 0] = np.nan'' (s\<lparr>arrays := (arrays s)(AWF s := a)\<rparr>))),
     \<lambda>s. and_then (setitem_mask (arrays s (TORT s)) (np_eq (arrays s (TORT s)) (Fin 0)) NaN)
          (\<lambda>a. Inr (called ''TORT[TORT == 0] = np.nan'' (s\<lparr>arrays := (arrays s)(TORT s := a)\<rparr>))),
     \<lambda>s. Inr (called ''imshow''
          (s\<lparr>fig1 := fig1 s @ [Imshow 0 (axial_T L (arrays s (MK s)) (axial_slice s))
                ''gray'' None None None ''nearest'' ''lower'']\<rparr>)),
     \<lambda>s. Inr (called ''imshow''
          (s\<lparr>im0 := length (fig1 s),
             fig1 := fig1 s @ [Imshow 0 (axial_T L (arrays s (AWF s)) (axial_slice s))
                ''Reds'' (Some (Fin f64_0_9)) (Some (Fin f64_0_3)) (Some (Fin f64_0_7))
                ''nearest'' ''lower'']\<rparr>)),
     \<lambda>s. Inr (called ''fig1.colorbar'' (s\<lparr>fig1 := fig1 s @ [Colorbar (im0 s) 0]\<rparr>)),
     \<lambda>s. Inr (called ''imshow''
          (s\<lparr>fig1 := fig1 s @ [Imshow 1 (axial_T L (arrays s (MK s)) (axial_slice s))
                ''gray'' None None None ''nearest'' ''lower'']\<rparr>)),
     \<lambda>s. Inr (called ''imshow''
          (s\<lparr>im1 := length (fig1 s),
             fig1 := fig1 s @ [Imshow 1 (axial_T L (arrays s (TORT s)) (axial_slice s))
                ''Blues'' (Some (Fin f64_0_9)) (Some (Fin 2)) (Some (Fin 6))
                ''nearest'' ''lower'']\<rparr>)),
     \<lambda>s. Inr (called ''fig1.colorbar'' (s\<lparr>fig1 := fig1 s @ [Colorbar (im1 s) 1]\<rparr>)),
     \<lambda>s. Inr (called ''fig1.savefig''
          (writing ''Kurtosis_Microstructural_measures.png'' (Figure (fig1 s)) s))]"

definition wmti_notebook :: "'o dipy \<Rightarrow> ('o wmti_state \<Rightarrow> py_error + 'o wmti_state) list" where
  "wmti_notebook L =
     wmti_cell2 L @ wmti_cell3 L @ wmti_cell4 L @ wmti_cell5 L @ wmti_cell6 L @ wmti_cell7 L
     @ wmti_cell8 L"

text \<open>
  A fresh kernel: nothing called, read or written, and no array allocated. The variables are
  not bound yet; the placeholder \<open>x\<close> stands for the library objects, and every variable is
  assigned before the notebook reads it.
\<close>

definition wmti_start :: "'o \<Rightarrow> 'o wmti_state" where
  "wmti_start x =
     \<lparr>calls = [], opened = [], written = [], arrays = (\<lambda>a. []), fresh = 0,
      data = \<lparr>nvox = 0, vols = []\<rparr>, affine = x, bvals = x, bvecs = x, gtab = x,
      maskdata = \<lparr>nvox = 0, vols = []\<rparr>, mask = [],
      fraw = [], fbval = [], fbvec = [], t1_fname = [], fwhm = Fin 0, gauss_std = Fin 0,
      data_smooth = \<lparr>nvox = 0, vols = []\<rparr>, smoothed = [], dki_micro_model = x,
      dkimodel = x, dkifit = x, well_aligned_mask = [], cl = 0, cp = 0, cs = 0,
      dki_micro_fit = x, AWF = 0, TORT = 0, MK = 0, axial_slice = 0, fig1 = [],
      im0 = 0, im1 = 0\<rparr>"

section \<open>The tractography notebook\<close>

record 'o tract_state = "'o nb_state" +
  hardi_fname :: string
  hardi_bval_fname :: string
  hardi_bvec_fname :: string
  hardi_img :: 'o
  label_fname :: "string list"
  labels :: "int list"
  white_matter :: "bool list"
  sphere :: 'o
  csa_model :: 'o
  csa_fit :: 'o
  odf :: "npfloat list list"
  pmf :: "npfloat list list"
  prob_dg :: 'o
  seed_mask :: "bool list"
  seeds :: "point list"
  stopping_criterion :: 'o
  streamlines_generator :: 'o
  streamlines :: 'o
  color :: 'o
  streamlines_actor :: 'o
  scene :: 'o
  sft :: 'o

text \<open>
  Cell 1: the Stanford HARDI dataset and its labels. \<open>get_fnames('stanford_labels')\<close> is
  bound as it comes; \<open>load_nifti_data\<close> raises TypeError on anything but one path.
\<close>

definition tract_cell1 :: "'o dipy \<Rightarrow> ('o tract_state \<Rightarrow> py_error + 'o tract_state) list" where
  "tract_cell1 L =
    [\<lambda>s. (case get_fnames L ''stanford_hardi'' of
            [a, b, c] \<Rightarrow>
              Inr (called ''get_fnames''
                (s\<lparr>hardi_fname := a, hardi_bval_fname := b, hardi_bvec_fname := c\<rparr>))
          | _ \<Rightarrow> Inl ValueError),
     \<lambda>s. (case load_nifti_img L (hardi_fname s) of
            (d, a, i) \<Rightarrow>
              Inr (called ''load_nifti''
                (reading (hardi_fname s) (s\<lparr>data := d, affine := a, hardi_img := i\<rparr>)))),
     \<lambda>s. (case read_bvals_bvecs L (hardi_bval_fname s) (hardi_bvec_fname s) of
            (x, y) \<Rightarrow>
              Inr (called ''read_bvals_bvecs''
                (reading (hardi_bvec_fname s) (reading (hardi_bval_fname s)
                  (s\<lparr>bvals := x, bvecs := y\<rparr>))))),
     \<lambda>s. Inr (called ''gradient_table'' (s\<lparr>gtab := gradient_table L (bvals s) (bvecs s)\<rparr>)),
     \<lambda>s. Inr (called ''get_fnames'' (s\<lparr>label_fname := get_fnames L ''stanford_labels''\<rparr>)),
     \<lambda>s. (case label_fname s of
            [p] \<Rightarrow> Inr (called ''load_nifti_data'' (reading p (s\<lparr>labels := load_nifti_data L p\<rparr>)))
          | _ \<Rightarrow> Inl TypeError),
     \<lambda>s. and_then (np_or (np_eq_int (labels s) 1) (np_eq_int (labels s) 2))
          (\<lambda>w. Inr (called ''(labels == 1) | (labels == 2)'' (s\<lparr>white_matter := w\<rparr>)))]"

text \<open>Cell 2: the brain mask (\<open>median_radius\<close> and \<open>autocrop\<close> are left at their defaults).\<close>

definition tract_cell2 :: "'o dipy \<Rightarrow> ('o tract_state \<Rightarrow> py_error + 'o tract_state) list" where
  "tract_cell2 L =
    [\<lambda>s. (case median_otsu L (data s) [0 ..< 9] None 1 None 5 of
            (md, m) \<Rightarrow> Inr (called ''median_otsu'' (s\<lparr>maskdata := md, mask := m\<rparr>)))]"

text \<open>Cell 3: directions from the CSA model.\<close>

definition tract_cell3 :: "'o dipy \<Rightarrow> ('o tract_state \<Rightarrow> py_error + 'o tract_state) list" where
  "tract_cell3 L =
    [\<lambda>s. Inr (called ''get_sphere'' (s\<lparr>sphere := get_sphere L ''repulsion724''\<rparr>)),
     \<lambda>s. Inr (called ''CsaOdfModel'' (s\<lparr>csa_model := CsaOdfModel L (gtab s) 6\<rparr>)),
     \<lambda>s. Inr (called ''csa_model.fit''
          (s\<lparr>csa_fit := csa_model_fit L (csa_model s) (data s) (white_matter s)\<rparr>)),
     \<lambda>s. Inr (called ''csa_fit.odf'' (s\<lparr>odf := fit_odf L (csa_fit s) (sphere s)\<rparr>)),
     \<lambda>s. Inr (called ''odf.clip'' (s\<lparr>pmf := np_clip_min (odf s) (Fin 0)\<rparr>)),
     \<lambda>s. Inr (called ''ProbabilisticDirectionGetter.from_pmf''
          (s\<lparr>prob_dg := from_pmf L (pmf s) (Fin 30) (sphere s)\<rparr>))]"

text \<open>Cell 4: the seeds.\<close>

definition tract_cell4 :: "'o dipy \<Rightarrow> ('o tract_state \<Rightarrow> py_error + 'o tract_state) list" where
  "tract_cell4 L =
    [\<lambda>s. Inr (called ''labels == 2'' (s\<lparr>seed_mask := np_eq_int (labels s) 2\<rparr>)),
     \<lambda>s. Inr (called ''utils.seeds_from_mask''
          (s\<lparr>seeds := seeds_from_mask L (seed_mask s) (affine s) [2, 2, 2]\<rparr>))]"

text \<open>Cell 5: the stopping criterion.\<close>

definition tract_cell5 :: "'o dipy \<Rightarrow> ('o tract_state \<Rightarrow> py_error + 'o tract_state) list" where
  "tract_cell5 L =
    [\<lambda>s. Inr (called ''ThresholdStoppingCriterion'' (called ''csa_fit.gfa''
          (s\<lparr>stopping_criterion :=
               ThresholdStoppingCriterion L (gfa L (csa_fit s)) (Fin f64_0_2)\<rparr>)))]"

text \<open>Cell 6: the streamlines.\<close>

definition tract_cell6 :: "'o dipy \<Rightarrow> ('o tract_state \<Rightarrow> py_error + 'o tract_state) list" where
  "tract_cell6 L =
    [\<lambda>s. Inr (called ''LocalTracking''
          (s\<lparr>streamlines_generator :=
               LocalTracking L (prob_dg s) (stopping_criterion s) (seeds s) (affine s)
                 (Fin 0.5)\<rparr>)),
     \<lambda>s. Inr (called ''Streamlines''
          (s\<lparr>streamlines := Streamlines L (streamlines_generator s)\<rparr>))]"

text \<open>Cell 7: the rendering, only where the fury package is installed.\<close>

definition tract_cell7 :: "'o dipy \<Rightarrow> ('o tract_state \<Rightarrow> py_error + 'o tract_state) list" where
  "tract_cell7 L =
    [\<lambda>s. if has_fury L then
            run
             [\<lambda>s. Inr (called ''colormap.line_colors''
                  (s\<lparr>color := line_colors L (streamlines s)\<rparr>)),
              \<lambda>s. Inr (called ''actor.line'' (called ''colormap.line_colors''
                  (s\<lparr>streamlines_actor :=
                       actor_line L (streamlines s) (line_colors L (streamlines s))\<rparr>))),
              \<lambda>s. Inr (called ''window.Scene'' (s\<lparr>scene := Scene L\<rparr>)),
              \<lambda>s. Inr (called ''scene.add''
                  (s\<lparr>scene := scene_add L (scene s) (streamlines_actor s)\<rparr>)),
              \<lambda>s. Inr (called ''window.record''
                  (writing ''csa_probabilistic_tractogram.png'' (Still (scene s) 800 800) s)),
              \<lambda>s. Inr (called ''window.show'' s)] s
          else Inr s]"

text \<open>Cell 8: the tractogram file.\<close>

definition tract_cell8 :: "'o dipy \<Rightarrow> ('o tract_state \<Rightarrow> py_error + 'o tract_state) list" where
  "tract_cell8 L =
    [\<lambda>s. Inr (called ''StatefulTractogram''
          (s\<lparr>sft := StatefulTractogram L (streamlines s) (hardi_img s) RASMM\<rparr>)),
     \<lambda>s. Inr (called ''save_trk''
          (writing ''csa_CC_tractography_probabilistic.trk''
             (Tractogram (sft s) (streamlines s)) s))]"

definition tract_notebook :: "'o dipy \<Rightarrow> ('o tract_state \<Rightarrow> py_error + 'o tract_state) list" where
  "tract_notebook L =
     tract_cell1 L @ tract_cell2 L @ tract_cell3 L @ tract_cell4 L @ tract_cell5 L
     @ tract_cell6 L @ tract_cell7 L @ tract_cell8 L"

definition tract_start :: "'o \<Rightarrow> 'o tract_state" where
  "tract_start x =
     \<lparr>calls = [], opened = [], written = [], arrays = (\<lambda>a. []), fresh = 0,
      data = \<lparr>nvox = 0, vols = []\<rparr>, affine = x, bvals = x, bvecs = x, gtab = x,
      maskdata = \<lparr>nvox = 0, vols = []\<rparr>, mask = [],
      hardi_fname = [], hardi_bval_fname = [], hardi_bvec_fname = [], hardi_img = x,
      label_fname = [], labels = [], white_matter = [], sphere = x, csa_model = x,
      csa_fit = x, odf = [], pmf = [], prob_dg = x, seed_mask = [], seeds = [],
      stopping_criterion = x, streamlines_generator = x, streamlines = x, color = x,
      streamlines_actor = x, scene = x, sft = x\<rparr>"

section \<open>A small library instance\<close>

text \<open>
  A concrete library on which the notebooks can be run: four voxels, two volumes, two
  sphere directions; voxel 2 is background (its tensor measures are NaN). Library objects
  are numbers; a DKI fit is the number of voxels it was fitted on. All values are doubles.
\<close>

definition example_lib :: "nat dipy" where
  "example_lib =
     \<lparr>get_fnames = (\<lambda>n.
         if n = ''cfin_multib'' then [''cfin.nii'', ''cfin.bval'', ''cfin.bvec'', ''T1.nii'']
         else if n = ''stanford_hardi'' then [''hardi.nii'', ''hardi.bval'', ''hardi.bvec'']
         else if n = ''stanford_labels'' then [''labels.nii''] else []),
      load_nifti = (\<lambda>p. (\<lparr>nvox = 4, vols = [[Fin 1, Fin 2, Fin 3, Fin 4],
                                             [Fin 5, Fin 6, Fin 7, Fin 8]]\<rparr>, 1)),
      load_nifti_img = (\<lambda>p. (\<lparr>nvox = 4, vols = [[Fin 1, Fin 2, Fin 3, Fin 4],
                                                 [Fin 5, Fin 6, Fin 7, Fin 8]]\<rparr>, 1, 2)),
      load_nifti_data = (\<lambda>p. [0, 1, 2, 2]),
      read_bvals_bvecs = (\<lambda>a b. (3, 4)),
      gradient_table = (\<lambda>a b. 5),
      median_otsu = (\<lambda>d vi mr np ac di. (d, [True, True, False, True])),
      np_log = (\<lambda>x. Fin 0.6875), np_sqrt = (\<lambda>x. Fin 2.375),
      fl_mul = (\<lambda>a b. Fin 5.5), fl_div = (\<lambda>a b. Fin 0.53125),
      gaussian_filter = (\<lambda>a sg. map (\<lambda>x. case x of Fin r \<Rightarrow> Fin (r / 2) | y \<Rightarrow> y) a),
      KurtosisMicrostructureModel = (\<lambda>g. 6),
      DiffusionKurtosisModel = (\<lambda>g. 7),
      dki_fit = (\<lambda>m d w. nvox d),
      linearity = (\<lambda>f. take f [Fin 0.5, Fin 0.25, NaN, Fin 0.75] @ replicate (f - 4) NaN),
      planarity = (\<lambda>f. take f [Fin 0.125, Fin 0.125, NaN, Fin 0.25] @ replicate (f - 4) NaN),
      sphericity = (\<lambda>f. take f [Fin 0.25, Fin 0.25, NaN, Fin 0.125] @ replicate (f - 4) NaN),
      mk = (\<lambda>f a b. [Fin 1, Fin 1, Fin 0, Fin 1]),
      micro_fit = (\<lambda>m d w. 9),
      awf = (\<lambda>f. [Fin 0.5, Fin 0, Fin 0, Fin 0]),
      tortuosity = (\<lambda>f. [Fin 3, Fin 0, Fin 0, Fin 0]),
      axial_T = (\<lambda>a k. a),
      get_sphere = (\<lambda>n. 10),
      CsaOdfModel = (\<lambda>g n. 11),
      csa_model_fit = (\<lambda>m d w. 12),
      fit_odf = (\<lambda>f sp. [[Fin 0, Fin 0], [Fin 0.5, Fin (- 0.125)], [Fin 0.25, Fin 0.375],
                         [Fin (- 0.25), Fin 1]]),
      gfa = (\<lambda>f. [Fin 0, Fin 0.25, Fin 0.125, Fin 0.5]),
      from_pmf = (\<lambda>p a sp. 13),
      seeds_from_mask = (\<lambda>m A d. map (\<lambda>i. (real i, 0, 0)) (filter (\<lambda>i. m ! i) [0 ..< length m])),
      ThresholdStoppingCriterion = (\<lambda>g t. 14),
      LocalTracking = (\<lambda>dg sc sd A st. 15),
      Streamlines = (\<lambda>g. 16),
      has_fury = True,
      line_colors = (\<lambda>sl. 17),
      actor_line = (\<lambda>sl c. 18),
      Scene = 19,
      scene_add = (\<lambda>sc a. 20),
      StatefulTractogram = (\<lambda>sl img sp. 21)\<rparr>"

section \<open>Steps of a notebook\<close>

text \<open>
  The specification describes a notebook as the steps load, mask, smooth, fit, derive,
  threshold/mask, visualize, save. \<open>step_of\<close> assigns each operation of the two notebooks,
  by the name under which it is logged in \<open>calls\<close>, to the step it belongs to: fetching and
  reading inputs are loading; \<open>median_otsu\<close> is the masking; the kernel width, the zero
  array and \<open>gaussian_filter\<close> are the smoothing; building and fitting a model is fitting;
  reading a map off a fit, and clipping it, is deriving; the boolean masks made by
  comparisons and the in-place assignments through them are thresholding; direction getter,
  seeds, stopping criterion and streamlines are tracking, which the specification's list
  does not name; drawing calls are visualizing; \<open>window.record\<close>, \<open>savefig\<close>, and
  \<open>StatefulTractogram\<close> with \<open>save_trk\<close> are saving.
\<close>

datatype step = Load | Mask | Smooth | Fit | Derive | Threshold | Track | Visualize | Save | Other






section \<open>Voxel selection\<close>

lemma fl_ge_alt: "fl_ge a b = (\<not> isnan a \<and> \<not> isnan b \<and> \<not> fl_lt a b)"
  by (cases a; cases b) (auto simp: fl_ge_def fl_eq_def)

lemma fl_le_alt: "fl_le a b = (\<not> isnan a \<and> \<not> isnan b \<and> \<not> fl_gt a b)"
  by (cases a; cases b) (auto simp: fl_le_def fl_eq_def fl_gt_def)

lemma fl_lt_NaN [simp]: "fl_lt a NaN = False"
  by (cases a) simp_all

lemmas cell5_unfold =
  wmti_cell5_def called_def new_array_def setitem_mask_def np_ones_def np_lt_def np_gt_def
  np_isnan_def

lemma cell5_history:
  fixes L :: "'o dipy" and s :: "'o wmti_state"
  defines "fit \<equiv> dki_fit L (DiffusionKurtosisModel L (gtab s)) (data_smooth s) (mask s)"
  assumes "length (linearity L fit) = nvox (data s)"
    and "length (planarity L fit) = nvox (data s)"
    and "length (sphericity L fit) = nvox (data s)"
  shows "map well_aligned_mask (states_of (wmti_cell5 L) s) =
    (let c = (\<lambda>m idx. map2 (\<lambda>x b. if b then False else x) m idx);
         m0 = replicate (nvox (data s)) True;
         m1 = c m0 (map (\<lambda>x. fl_lt x (Fin f64_0_4)) (linearity L fit));
         m2 = c m1 (map (\<lambda>x. fl_gt x (Fin f64_0_2)) (planarity L fit));
         m3 = c m2 (map (\<lambda>x. fl_gt x (Fin f64_0_35)) (sphericity L fit));
         m4 = c m3 (map isnan (linearity L fit));
         m5 = c m4 (map isnan (planarity L fit));
         m6 = c m5 (map isnan (sphericity L fit))
     in [well_aligned_mask s, well_aligned_mask s, m0, m0, m1, m1, m2, m2, m3, m4, m5, m6])"
  using assms by (simp add: cell5_unfold Let_def)

lemma cell5_final:
  fixes L :: "'o dipy" and s :: "'o wmti_state"
  defines "fit \<equiv> dki_fit L (DiffusionKurtosisModel L (gtab s)) (data_smooth s) (mask s)"
  assumes "length (linearity L fit) = nvox (data s)"
    and "length (planarity L fit) = nvox (data s)"
    and "length (sphericity L fit) = nvox (data s)"
  shows "\<exists>t. run (wmti_cell5 L) s = Inr t \<and> dkifit t = fit
     \<and> arrays t (cl t) = linearity L fit \<and> arrays t (cp t) = planarity L fit
     \<and> arrays t (cs t) = sphericity L fit
     \<and> well_aligned_mask t = last (map well_aligned_mask (states_of (wmti_cell5 L) s))"
  using assms by (simp add: cell5_unfold Let_def)

lemma exclude_nth:
  "v < length m \<Longrightarrow> length idx = length m \<Longrightarrow>
   map2 (\<lambda>x b. if b then False else x) m idx ! v = (m ! v \<and> \<not> idx ! v)"
  by simp

text \<open>
  C1. When the arrays of the DKI fit have the spatial shape of the data, the voxel-selection
  cell completes, and for every voxel \<open>v\<close> the final \<open>well_aligned_mask[v]\<close> is True if and
  only if \<open>cl[v] >= 0.4\<close>, \<open>cp[v] <= 0.2\<close>, \<open>cs[v] <= 0.35\<close> and none of the three is NaN,
  where \<open>cl\<close>, \<open>cp\<close>, \<open>cs\<close> are the linearity, planarity and sphericity of the DKI fit.
  \<open>H\<close> lists the mask after each statement of the cell: after the third (\<open>np.ones\<close>) it is
  all True, and each later statement can only turn an entry from True to False.
\<close>

theorem well_aligned_mask_selects:
  fixes L :: "'o dipy" and s :: "'o wmti_state"
  defines "fit \<equiv> dki_fit L (DiffusionKurtosisModel L (gtab s)) (data_smooth s) (mask s)"
  defines "H \<equiv> map well_aligned_mask (states_of (wmti_cell5 L) s)"
  assumes len: "length (linearity L fit) = nvox (data s)"
      "length (planarity L fit) = nvox (data s)"
      "length (sphericity L fit) = nvox (data s)"
  shows "\<exists>t. run (wmti_cell5 L) s = Inr t
     \<and> arrays t (cl t) = linearity L fit \<and> arrays t (cp t) = planarity L fit
     \<and> arrays t (cs t) = sphericity L fit
     \<and> length (well_aligned_mask t) = nvox (data s)
     \<and> (\<forall>v < nvox (data s). well_aligned_mask t ! v =
           (fl_ge (arrays t (cl t) ! v) (Fin f64_0_4) \<and> fl_le (arrays t (cp t) ! v) (Fin f64_0_2)
            \<and> fl_le (arrays t (cs t) ! v) (Fin f64_0_35)
            \<and> \<not> isnan (arrays t (cl t) ! v) \<and> \<not> isnan (arrays t (cp t) ! v)
            \<and> \<not> isnan (arrays t (cs t) ! v)))
     \<and> H ! 2 = replicate (nvox (data s)) True
     \<and> (\<forall>k v. 2 \<le> k \<and> k < 11 \<and> v < nvox (data s) \<longrightarrow> H ! Suc k ! v \<longrightarrow> H ! k ! v)
     \<and> well_aligned_mask t = H ! 11"
proof -
  from cell5_final [of L s] len obtain t where
    t: "run (wmti_cell5 L) s = Inr t" "arrays t (cl t) = linearity L fit"
      "arrays t (cp t) = planarity L fit" "arrays t (cs t) = sphericity L fit"
      "well_aligned_mask t = last H"
    unfolding fit_def H_def by blast
  note hist = cell5_history [of L s, folded fit_def H_def, OF len, unfolded Let_def]
  have final: "last H = H ! 11" by (simp add: hist)
  have lenf: "length (H ! 11) = nvox (data s)" by (simp add: hist len)
  have sel: "H ! 11 ! v =
           (fl_ge (linearity L fit ! v) (Fin f64_0_4) \<and> fl_le (planarity L fit ! v) (Fin f64_0_2)
            \<and> fl_le (sphericity L fit ! v) (Fin f64_0_35)
            \<and> \<not> isnan (linearity L fit ! v) \<and> \<not> isnan (planarity L fit ! v)
            \<and> \<not> isnan (sphericity L fit ! v))" if "v < nvox (data s)" for v
    using that by (auto simp add: hist len fl_ge_alt fl_le_alt)
  have start: "H ! 2 = replicate (nvox (data s)) True" by (simp add: hist)
  have mono: "H ! Suc k ! v \<longrightarrow> H ! k ! v" if "2 \<le> k" "k < 11" "v < nvox (data s)" for k v
  proof -
    from that have "k = 2 \<or> k = 3 \<or> k = 4 \<or> k = 5 \<or> k = 6 \<or> k = 7 \<or> k = 8 \<or> k = 9 \<or> k = 10"
      by arith
    then show ?thesis using that(3) by (elim disjE) (simp_all add: hist len)
  qed
  show ?thesis
    using t final lenf sel start mono by (intro exI [of _ t]) simp
qed








theorem well_aligned_mask_selects_witness:
  "length (linearity example_lib 4) = 4
   \<and> (\<exists>t. run (wmti_cell5 example_lib) ((wmti_start 0)\<lparr>data := \<lparr>nvox = 4, vols = []\<rparr>,
           data_smooth := \<lparr>nvox = 4, vols = []\<rparr>\<rparr>) = Inr t
        \<and> length (well_aligned_mask t) = 4
        \<and> well_aligned_mask t ! 0 \<and> \<not> well_aligned_mask t ! 1
        \<and> \<not> well_aligned_mask t ! 2 \<and> \<not> well_aligned_mask t ! 3)"
proof -
  define s0 :: "nat wmti_state" where "s0 = (wmti_start 0)\<lparr>data := \<lparr>nvox = 4, vols = []\<rparr>,
           data_smooth := \<lparr>nvox = 4, vols = []\<rparr>\<rparr>"
  define fit where
    "fit = dki_fit example_lib (DiffusionKurtosisModel example_lib (gtab s0)) (data_smooth s0) (mask s0)"
  have fit: "fit = 4" by (simp add: fit_def example_lib_def s0_def wmti_start_def)
  have n: "nvox (data s0) = 4" by (simp add: s0_def wmti_start_def)
  have h1: "length (linearity example_lib fit) = nvox (data s0)"
    and h2: "length (planarity example_lib fit) = nvox (data s0)"
    and h3: "length (sphericity example_lib fit) = nvox (data s0)"
    by (simp_all add: n fit example_lib_def)
  from well_aligned_mask_selects [OF h1 [unfolded fit_def] h2 [unfolded fit_def] h3 [unfolded fit_def]]
  obtain t where t: "run (wmti_cell5 example_lib) s0 = Inr t"
    "arrays t (cl t) = linearity example_lib fit" "arrays t (cp t) = planarity example_lib fit"
    "arrays t (cs t) = sphericity example_lib fit"
    "length (well_aligned_mask t) = nvox (data s0)"
    "\<forall>v < nvox (data s0). well_aligned_mask t ! v =
           (fl_ge (arrays t (cl t) ! v) (Fin f64_0_4) \<and> fl_le (arrays t (cp t) ! v) (Fin f64_0_2)
            \<and> fl_le (arrays t (cs t) ! v) (Fin f64_0_35)
            \<and> \<not> isnan (arrays t (cl t) ! v) \<and> \<not> isnan (arrays t (cp t) ! v)
            \<and> \<not> isnan (arrays t (cs t) ! v))"
    unfolding fit_def by blast
  have sel: "well_aligned_mask t ! v =
           (fl_ge (linearity example_lib 4 ! v) (Fin f64_0_4) \<and> fl_le (planarity example_lib 4 ! v) (Fin f64_0_2)
            \<and> fl_le (sphericity example_lib 4 ! v) (Fin f64_0_35)
            \<and> \<not> isnan (linearity example_lib 4 ! v) \<and> \<not> isnan (planarity example_lib 4 ! v)
            \<and> \<not> isnan (sphericity example_lib 4 ! v))" if "v < 4" for v
    using t(6) that by (simp add: t(2,3,4) fit n)
  have "well_aligned_mask t ! 0" "\<not> well_aligned_mask t ! 1" "\<not> well_aligned_mask t ! 2"
    "\<not> well_aligned_mask t ! 3"
    by (simp_all add: sel example_lib_def fl_ge_def fl_le_def fl_eq_def f64_0_4_def f64_0_2_def
        f64_0_35_def)
  moreover have "length (linearity example_lib 4) = 4" by (simp add: example_lib_def)
  ultimately show ?thesis using t(1,5) n unfolding s0_def by auto
qed


section \<open>Smoothing\<close>

lemma and_then_run_Nil [simp]: "and_then x (run []) = x"
  by (cases x) simp_all

lemma smooth_loop:
  fixes L :: "'o dipy" and s :: "'o wmti_state"
  assumes "length (vols (data s)) = n" "length (vols (data_smooth s)) = n"
    and "\<forall>vol \<in> set (vols (data s)).
           length (gaussian_filter L vol (gauss_std s)) = nvox (data_smooth s)"
    and "k \<le> n"
  shows "for_range [k ..< n] (smooth_volume L) s =
     Inr (s\<lparr>data_smooth := (data_smooth s)
             \<lparr>vols := take k (vols (data_smooth s))
                 @ map (\<lambda>vol. gaussian_filter L vol (gauss_std s)) (drop k (vols (data s)))\<rparr>,
           smoothed := smoothed s @ [k ..< n],
           calls := calls s @ replicate (n - k) ''gaussian_filter''\<rparr>)"
  using assms
proof (induction "n - k" arbitrary: k s)
  case 0
  then show ?case by simp
next
  case (Suc d)
  then have kn: "k < n" by simp
  let ?g = "\<lambda>vol. gaussian_filter L vol (gauss_std s)"
  let ?s1 = "called ''gaussian_filter''
      (s\<lparr>data_smooth := (data_smooth s)\<lparr>vols := (vols (data_smooth s))[k := ?g (vols (data s) ! k)]\<rparr>,
         smoothed := smoothed s @ [k]\<rparr>)"
  have len: "length (?g (vols (data s) ! k)) = nvox (data_smooth s)"
    using Suc.prems kn by simp
  have step: "smooth_volume L k s = Inr ?s1"
    using Suc.prems kn len by (simp add: smooth_volume_def getitem_last_def setitem_last_def)
  have rest: "for_range [Suc k ..< n] (smooth_volume L) ?s1 =
     Inr (?s1\<lparr>data_smooth := (data_smooth ?s1)
             \<lparr>vols := take (Suc k) (vols (data_smooth ?s1))
                 @ map (\<lambda>vol. gaussian_filter L vol (gauss_std ?s1)) (drop (Suc k) (vols (data ?s1)))\<rparr>,
           smoothed := smoothed ?s1 @ [Suc k ..< n],
           calls := calls ?s1 @ replicate (n - Suc k) ''gaussian_filter''\<rparr>)"
    using Suc.hyps(2) Suc.prems kn
    by (intro Suc.hyps(1)) (simp_all add: called_def)
  have t1: "take (Suc k) ((vols (data_smooth s))[k := y]) = take k (vols (data_smooth s)) @ [y]" for y
    using Suc.prems kn by (simp add: take_Suc_conv_app_nth)
  have t2: "drop k (vols (data s)) = vols (data s) ! k # drop (Suc k) (vols (data s))"
    using Suc.prems kn by (simp add: Cons_nth_drop_Suc)
  have t3: "[k ..< n] = k # [Suc k ..< n]" using kn by (simp add: upt_conv_Cons)
  have t4: "replicate (n - k) x = x # replicate (n - Suc k) x" for x :: string
    using kn by (simp add: Suc_diff_Suc flip: replicate_Suc)
  show ?case
    unfolding t3 for_range.simps step and_then.simps rest
    by (simp add: called_def t1 t2 t4 flip: t3)
qed

lemma cell3_result:
  fixes L :: "'o dipy" and s :: "'o wmti_state"
  defines "sigma \<equiv> fl_div L (Fin 1.25) (np_sqrt L (fl_mul L (Fin 8) (np_log L (Fin 2))))"
  assumes "\<forall>vol \<in> set (vols (data s)). length (gaussian_filter L vol sigma) = nvox (data s)"
  shows "run (wmti_cell3 L) s =
     Inr (s\<lparr>maskdata := fst (median_otsu L (data s) [0, 1] (Some 4) 2 (Some False) 1),
           mask := snd (median_otsu L (data s) [0, 1] (Some 4) 2 (Some False) 1),
           fwhm := Fin 1.25, gauss_std := sigma,
           data_smooth := \<lparr>nvox = nvox (data s),
              vols = map (\<lambda>vol. gaussian_filter L vol sigma) (vols (data s))\<rparr>,
           smoothed := smoothed s @ [0 ..< length (vols (data s))],
           calls := calls s @ [''median_otsu'', ''np.log'', ''np.sqrt'', ''np.zeros'']
              @ replicate (length (vols (data s))) ''gaussian_filter''\<rparr>)"
proof -
  obtain md m where mo: "median_otsu L (data s) [0, 1] (Some 4) 2 (Some False) 1 = (md, m)"
    by (cases "median_otsu L (data s) [0, 1] (Some 4) 2 (Some False) 1")
  let ?s4 = "called ''np.zeros'' (called ''np.sqrt'' (called ''np.log'' (called ''median_otsu''
      (s\<lparr>maskdata := md, mask := m, fwhm := Fin 1.25, gauss_std := sigma,
         data_smooth := np_zeros (nvox (data s)) (length (vols (data s)))\<rparr>))))"
  have loop: "for_range [0 ..< length (vols (data s))] (smooth_volume L) ?s4 =
     Inr (?s4\<lparr>data_smooth := (data_smooth ?s4)
             \<lparr>vols := take 0 (vols (data_smooth ?s4))
                 @ map (\<lambda>vol. gaussian_filter L vol (gauss_std ?s4)) (drop 0 (vols (data ?s4)))\<rparr>,
           smoothed := smoothed ?s4 @ [0 ..< length (vols (data s))],
           calls := calls ?s4 @ replicate (length (vols (data s)) - 0) ''gaussian_filter''\<rparr>)"
    using assms(2) by (intro smooth_loop) (simp_all add: called_def np_zeros_def)
  have "run (wmti_cell3 L) s = for_range [0 ..< length (vols (data s))] (smooth_volume L) ?s4"
    using mo by (simp add: wmti_cell3_def called_def sigma_def)
  also note loop
  finally show ?thesis using mo by (simp add: called_def np_zeros_def)
qed

text \<open>
  C5. When \<open>gaussian_filter\<close> returns a volume of the shape it was given, the smoothing cell
  completes. \<open>data_smooth\<close> is first the array of zeros of the shape of \<open>data\<close> (the state
  after the fourth statement); at the end it has that shape, and for every volume index
  \<open>v\<close> in \<open>range(data.shape[-1])\<close>, \<open>data_smooth[..., v]\<close> is the Gaussian filter of
  \<open>data[..., v]\<close> with standard deviation \<open>1.25 / sqrt(8 * log 2)\<close>. The indices assigned are
  \<open>0, 1, ..., data.shape[-1] - 1\<close> in this order: each volume once, none skipped.
\<close>

theorem data_smooth_each_volume:
  fixes L :: "'o dipy" and s :: "'o wmti_state"
  defines "sigma \<equiv> fl_div L (Fin 1.25) (np_sqrt L (fl_mul L (Fin 8) (np_log L (Fin 2))))"
  assumes shape: "\<forall>vol \<in> set (vols (data s)). length (gaussian_filter L vol sigma) = nvox (data s)"
  shows "\<exists>t. run (wmti_cell3 L) s = Inr t
     \<and> gauss_std t = sigma
     \<and> data_smooth (states_of (wmti_cell3 L) s ! 3)
         = np_zeros (nvox (data s)) (length (vols (data s)))
     \<and> nvox (data_smooth t) = nvox (data s)
     \<and> length (vols (data_smooth t)) = length (vols (data s))
     \<and> (\<forall>v < length (vols (data s)).
           vols (data_smooth t) ! v = gaussian_filter L (vols (data s) ! v) sigma)
     \<and> smoothed t = smoothed s @ [0 ..< length (vols (data s))]
     \<and> data t = data s"
proof -
  have init: "data_smooth (states_of (wmti_cell3 L) s ! 3)
         = np_zeros (nvox (data s)) (length (vols (data s)))"
    by (simp add: wmti_cell3_def called_def split: prod.split)
  show ?thesis
    using init by (simp add: cell3_result [OF shape [unfolded sigma_def]] sigma_def)
qed

theorem data_smooth_each_volume_witness:
  "\<exists>t. run (wmti_cell3 example_lib)
        ((wmti_start 0)\<lparr>data := \<lparr>nvox = 4, vols = [[Fin 1, Fin 2, Fin 3, Fin 4],
                                                   [Fin 5, Fin 6, Fin 7, Fin 8]]\<rparr>\<rparr>) = Inr t
     \<and> gauss_std t = Fin 0.53125
     \<and> vols (data_smooth t) ! 0 = [Fin 0.5, Fin 1, Fin 1.5, Fin 2]
     \<and> vols (data_smooth t) ! 1 = [Fin 2.5, Fin 3, Fin 3.5, Fin 4]
     \<and> smoothed t = [0, 1]"
proof -
  define s0 :: "nat wmti_state" where
    "s0 = (wmti_start 0)\<lparr>data := \<lparr>nvox = 4, vols = [[Fin 1, Fin 2, Fin 3, Fin 4],
                                                   [Fin 5, Fin 6, Fin 7, Fin 8]]\<rparr>\<rparr>"
  have d: "data s0 = \<lparr>nvox = 4, vols = [[Fin 1, Fin 2, Fin 3, Fin 4],
                                                   [Fin 5, Fin 6, Fin 7, Fin 8]]\<rparr>"
    "smoothed s0 = []"
    by (simp_all add: s0_def wmti_start_def)
  have h: "\<forall>vol \<in> set (vols (data s0)).
      length (gaussian_filter example_lib vol
        (fl_div example_lib (Fin 1.25) (np_sqrt example_lib
           (fl_mul example_lib (Fin 8) (np_log example_lib (Fin 2)))))) = nvox (data s0)"
    by (simp add: d example_lib_def)
  from data_smooth_each_volume [OF h] obtain t where
    t: "run (wmti_cell3 example_lib) s0 = Inr t"
     "gauss_std t = fl_div example_lib (Fin 1.25) (np_sqrt example_lib
             (fl_mul example_lib (Fin 8) (np_log example_lib (Fin 2))))"
     "\<forall>v < length (vols (data s0)).
         vols (data_smooth t) ! v = gaussian_filter example_lib (vols (data s0) ! v)
           (fl_div example_lib (Fin 1.25) (np_sqrt example_lib
             (fl_mul example_lib (Fin 8) (np_log example_lib (Fin 2)))))"
     "smoothed t = smoothed s0 @ [0 ..< length (vols (data s0))]"
    by blast
  have g: "gauss_std t = Fin 0.53125"
    using t(2) by (simp add: example_lib_def)
  have "vols (data_smooth t) ! 0 = [Fin 0.5, Fin 1, Fin 1.5, Fin 2]"
    "vols (data_smooth t) ! 1 = [Fin 2.5, Fin 3, Fin 3.5, Fin 4]"
    using t(3) by (simp_all add: d example_lib_def)
  moreover have "smoothed t = [0, 1]"
    using t(4) by (simp add: d upt_rec)
  ultimately show ?thesis using t(1) g unfolding s0_def by auto
qed

section \<open>The plotting cell\<close>





section \<open>Running the notebooks\<close>

subsection \<open>The WMTI notebook from a fresh kernel\<close>






subsection \<open>The tractography notebook from a fresh kernel\<close>

lemmas tract_cells =
  tract_cell1_def tract_cell2_def tract_cell3_def tract_cell4_def tract_cell5_def
  tract_cell6_def tract_cell7_def tract_cell8_def

lemma map2_or_map: "map2 (\<or>) (map f xs) (map g xs) = map (\<lambda>x. f x \<or> g x) xs"
  by (induction xs) simp_all

lemma tract_run:
  fixes L :: "'o dipy"
  assumes "get_fnames L ''stanford_hardi'' = [a, b, c]" "get_fnames L ''stanford_labels'' = [p]"
  shows "\<exists>t. run (tract_notebook L) (tract_start x) = Inr t
    \<and> calls t =
        [''get_fnames'', ''load_nifti'', ''read_bvals_bvecs'', ''gradient_table'', ''get_fnames'',
         ''load_nifti_data'', ''(labels == 1) | (labels == 2)'', ''median_otsu'', ''get_sphere'',
         ''CsaOdfModel'', ''csa_model.fit'', ''csa_fit.odf'', ''odf.clip'',
         ''ProbabilisticDirectionGetter.from_pmf'', ''labels == 2'', ''utils.seeds_from_mask'',
         ''csa_fit.gfa'', ''ThresholdStoppingCriterion'', ''LocalTracking'', ''Streamlines'']
        @ (if has_fury L
           then [''colormap.line_colors'', ''colormap.line_colors'', ''actor.line'',
                 ''window.Scene'', ''scene.add'', ''window.record'', ''window.show'']
           else [])
        @ [''StatefulTractogram'', ''save_trk'']
    \<and> opened t = [a, b, c, p]
    \<and> hardi_fname t = a \<and> hardi_bval_fname t = b \<and> hardi_bvec_fname t = c
    \<and> label_fname t = [p]
    \<and> written t =
        (if has_fury L then [(''csa_probabilistic_tractogram.png'', Still (scene t) 800 800)]
         else [])
        @ [(''csa_CC_tractography_probabilistic.trk'', Tractogram (sft t) (streamlines t))]
    \<and> sft t = StatefulTractogram L (streamlines t) (hardi_img t) RASMM
    \<and> data t = fst (load_nifti_img L a) \<and> affine t = fst (snd (load_nifti_img L a))
    \<and> labels t = load_nifti_data L p
    \<and> white_matter t = map (\<lambda>x. x = 1 \<or> x = 2) (labels t)
    \<and> seed_mask t = map (\<lambda>x. x = 2) (labels t)
    \<and> sphere t = get_sphere L ''repulsion724''
    \<and> csa_model t = CsaOdfModel L (gtab t) 6
    \<and> csa_fit t = csa_model_fit L (csa_model t) (data t) (white_matter t)
    \<and> odf t = fit_odf L (csa_fit t) (sphere t)
    \<and> pmf t = np_clip_min (odf t) (Fin 0)
    \<and> prob_dg t = from_pmf L (pmf t) (Fin 30) (sphere t)
    \<and> seeds t = seeds_from_mask L (seed_mask t) (affine t) [2, 2, 2]
    \<and> stopping_criterion t = ThresholdStoppingCriterion L (gfa L (csa_fit t)) (Fin f64_0_2)
    \<and> streamlines_generator t =
        LocalTracking L (prob_dg t) (stopping_criterion t) (seeds t) (affine t) (Fin 0.5)
    \<and> streamlines t = Streamlines L (streamlines_generator t)"
  using assms
  by (simp add: tract_notebook_def tract_cells tract_start_def called_def reading_def writing_def
      np_or_def np_eq_int_def map2_or_map split: prod.split)

subsection \<open>The library instance\<close>

lemma example_lib_fnames:
  "get_fnames example_lib ''cfin_multib'' = [''cfin.nii'', ''cfin.bval'', ''cfin.bvec'', ''T1.nii'']"
  "get_fnames example_lib ''stanford_hardi'' = [''hardi.nii'', ''hardi.bval'', ''hardi.bvec'']"
  "get_fnames example_lib ''stanford_labels'' = [''labels.nii'']"
  by (simp_all add: example_lib_def)


section \<open>The direction getter\<close>

lemma clip_min_zero: "clip_min x (Fin 0) = (if fl_gt (Fin 0) x then Fin 0 else x)"
  by (cases x) (simp_all add: clip_min_def fl_gt_def)

text \<open>
  C4. In the tractography notebook the direction getter is built by \<open>from_pmf\<close>, with
  \<open>max_angle\<close> 30 and the sphere \<open>repulsion724\<close>, from the array \<open>pmf\<close>; \<open>pmf\<close> has the shape of
  \<open>odf\<close>, the ODF on that sphere of the CSA model of order 6 fitted to the data on the mask
  \<open>white_matter\<close>, and for every voxel and direction \<open>pmf\<close> is \<open>max(odf, 0)\<close>: 0 where
  \<open>0 > odf\<close>, else \<open>odf\<close>. \<open>LocalTracking\<close> is given this direction getter and no other.
\<close>

theorem prob_dg_from_clipped_odf:
  fixes L :: "'o dipy"
  assumes fn: "get_fnames L ''stanford_hardi'' = [a, b, c]"
      "get_fnames L ''stanford_labels'' = [p]"
  shows "\<exists>t. run (tract_notebook L) (tract_start x) = Inr t
    \<and> sphere t = get_sphere L ''repulsion724''
    \<and> csa_model t = CsaOdfModel L (gtab t) 6
    \<and> csa_fit t = csa_model_fit L (csa_model t) (data t) (white_matter t)
    \<and> odf t = fit_odf L (csa_fit t) (sphere t)
    \<and> length (pmf t) = length (odf t)
    \<and> (\<forall>v < length (odf t). length (pmf t ! v) = length (odf t ! v)
          \<and> (\<forall>d < length (odf t ! v).
                pmf t ! v ! d = (if fl_gt (Fin 0) (odf t ! v ! d) then Fin 0 else odf t ! v ! d)))
    \<and> prob_dg t = from_pmf L (pmf t) (Fin 30) (sphere t)
    \<and> streamlines_generator t =
        LocalTracking L (prob_dg t) (stopping_criterion t) (seeds t) (affine t) (Fin 0.5)
    \<and> streamlines t = Streamlines L (streamlines_generator t)"
proof -
  from tract_run [OF fn, of x] obtain t where
    t: "run (tract_notebook L) (tract_start x) = Inr t"
      "sphere t = get_sphere L ''repulsion724''"
      "csa_model t = CsaOdfModel L (gtab t) 6"
      "csa_fit t = csa_model_fit L (csa_model t) (data t) (white_matter t)"
      "odf t = fit_odf L (csa_fit t) (sphere t)"
      "pmf t = np_clip_min (odf t) (Fin 0)"
      "prob_dg t = from_pmf L (pmf t) (Fin 30) (sphere t)"
      "streamlines_generator t =
        LocalTracking L (prob_dg t) (stopping_criterion t) (seeds t) (affine t) (Fin 0.5)"
      "streamlines t = Streamlines L (streamlines_generator t)"
    by blast
  have len: "length (pmf t) = length (odf t)"
    by (simp add: t(6) np_clip_min_def)
  have elt: "length (pmf t ! v) = length (odf t ! v)
      \<and> (\<forall>d < length (odf t ! v).
            pmf t ! v ! d = (if fl_gt (Fin 0) (odf t ! v ! d) then Fin 0 else odf t ! v ! d))"
    if "v < length (odf t)" for v
    using that by (simp add: t(6) np_clip_min_def clip_min_zero)
  show ?thesis
    using t(1,2,3,4,5,7,8,9) len elt by (intro exI [of _ t]) simp
qed

theorem prob_dg_from_clipped_odf_witness:
  "\<exists>t. run (tract_notebook example_lib) (tract_start 0) = Inr t
    \<and> odf t ! 1 = [Fin 0.5, Fin (- 0.125)] \<and> pmf t ! 1 ! 0 = Fin 0.5 \<and> pmf t ! 1 ! 1 = Fin 0
    \<and> prob_dg t = 13"
proof -
  from prob_dg_from_clipped_odf [OF example_lib_fnames(2,3), of 0] obtain t where
    t: "run (tract_notebook example_lib) (tract_start 0) = Inr t"
      "odf t = fit_odf example_lib (csa_fit t) (sphere t)"
      "\<forall>v < length (odf t). length (pmf t ! v) = length (odf t ! v)
          \<and> (\<forall>d < length (odf t ! v).
                pmf t ! v ! d = (if fl_gt (Fin 0) (odf t ! v ! d) then Fin 0 else odf t ! v ! d))"
      "prob_dg t = from_pmf example_lib (pmf t) (Fin 30) (sphere t)"
    by blast
  have o: "odf t = [[Fin 0, Fin 0], [Fin 0.5, Fin (- 0.125)], [Fin 0.25, Fin 0.375],
                         [Fin (- 0.25), Fin 1]]"
    by (simp add: t(2) example_lib_def)
  have "pmf t ! 1 ! d = (if fl_gt (Fin 0) (odf t ! 1 ! d) then Fin 0 else odf t ! 1 ! d)"
    if "d < 2" for d
    using t(3) that by (simp add: o)
  from this [of 0] this [of 1] have "pmf t ! 1 ! 0 = Fin 0.5" "pmf t ! 1 ! 1 = Fin 0"
    by (simp_all add: o fl_gt_def)
  moreover have "prob_dg t = 13" by (simp add: t(4) example_lib_def)
  moreover have "odf t ! 1 = [Fin 0.5, Fin (- 0.125)]" by (simp add: o)
  ultimately show ?thesis using t(1) by (intro exI [of _ t]) simp
qed

section \<open>Seeds and the fit mask\<close>

text \<open>
  C8. In the tractography notebook \<open>seed_mask\<close> and \<open>white_matter\<close> have the same shape and
  every voxel of \<open>seed_mask\<close> (\<open>labels == 2\<close>) is a voxel of \<open>white_matter\<close>
  (\<open>(labels == 1) | (labels == 2)\<close>), the mask on which the CSA model is fitted. The seeds are
  those \<open>seeds_from_mask\<close> returns for \<open>seed_mask\<close>; when that function places every seed in
  a voxel of the mask it is given (\<open>voxel_of\<close> locates a point under an affine), every seed
  lies in a voxel of the fit mask.
\<close>

theorem seeds_inside_fit_mask:
  fixes L :: "'o dipy" and voxel_of :: "'o \<Rightarrow> point \<Rightarrow> nat"
  assumes fn: "get_fnames L ''stanford_hardi'' = [a, b, c]"
      "get_fnames L ''stanford_labels'' = [p]"
    and placed: "\<forall>m A d. \<forall>q \<in> set (seeds_from_mask L m A d).
        voxel_of A q < length m \<and> m ! voxel_of A q"
  shows "\<exists>t. run (tract_notebook L) (tract_start x) = Inr t
    \<and> labels t = load_nifti_data L p
    \<and> white_matter t = map (\<lambda>l. l = 1 \<or> l = 2) (labels t)
    \<and> seed_mask t = map (\<lambda>l. l = 2) (labels t)
    \<and> length (seed_mask t) = length (white_matter t)
    \<and> (\<forall>v < length (white_matter t). seed_mask t ! v \<longrightarrow> white_matter t ! v)
    \<and> csa_fit t = csa_model_fit L (csa_model t) (data t) (white_matter t)
    \<and> seeds t = seeds_from_mask L (seed_mask t) (affine t) [2, 2, 2]
    \<and> (\<forall>q \<in> set (seeds t). voxel_of (affine t) q < length (white_matter t)
          \<and> white_matter t ! voxel_of (affine t) q)"
proof -
  from tract_run [OF fn, of x] obtain t where
    t: "run (tract_notebook L) (tract_start x) = Inr t"
      "labels t = load_nifti_data L p"
      "white_matter t = map (\<lambda>x. x = 1 \<or> x = 2) (labels t)"
      "seed_mask t = map (\<lambda>x. x = 2) (labels t)"
      "csa_fit t = csa_model_fit L (csa_model t) (data t) (white_matter t)"
      "seeds t = seeds_from_mask L (seed_mask t) (affine t) [2, 2, 2]"
    by blast
  have len: "length (seed_mask t) = length (white_matter t)"
    by (simp add: t(3,4))
  have sub: "\<forall>v < length (white_matter t). seed_mask t ! v \<longrightarrow> white_matter t ! v"
    by (simp add: t(3,4))
  have inside: "\<forall>q \<in> set (seeds t). voxel_of (affine t) q < length (white_matter t)
      \<and> white_matter t ! voxel_of (affine t) q"
  proof
    fix q assume "q \<in> set (seeds t)"
    with placed have "voxel_of (affine t) q < length (seed_mask t)
        \<and> seed_mask t ! voxel_of (affine t) q"
      unfolding t(6) by blast
    then show "voxel_of (affine t) q < length (white_matter t)
      \<and> white_matter t ! voxel_of (affine t) q"
      by (auto simp add: t(3,4))
  qed
  from t len sub inside show ?thesis by blast
qed

theorem seeds_inside_fit_mask_witness:
  "\<exists>t. run (tract_notebook example_lib) (tract_start 0) = Inr t
    \<and> labels t = [0, 1, 2, 2]
    \<and> seeds t = [(2, 0, 0), (3, 0, 0)]
    \<and> white_matter t ! 2 \<and> white_matter t ! 3
    \<and> nat \<lfloor>fst (2 :: real, 0 :: real, 0 :: real)\<rfloor> < length (white_matter t)"
proof -
  have sfm: "seeds_from_mask example_lib m A d
      = map (\<lambda>i. (real i, 0, 0)) (filter (\<lambda>i. m ! i) [0 ..< length m])" for m A d
    by (simp add: example_lib_def)
  have lnd: "load_nifti_data example_lib q = [0, 1, 2, 2]" for q
    by (simp add: example_lib_def)
  have placed: "\<forall>m A d. \<forall>q \<in> set (seeds_from_mask example_lib m A d).
        (\<lambda>A q. nat \<lfloor>fst q\<rfloor>) A q < length m \<and> m ! (\<lambda>A q. nat \<lfloor>fst q\<rfloor>) A q"
    unfolding sfm by auto
  from seeds_inside_fit_mask [OF example_lib_fnames(2,3) placed, of 0] obtain t where
    t: "run (tract_notebook example_lib) (tract_start 0) = Inr t"
      "labels t = load_nifti_data example_lib ''labels.nii''"
      "seed_mask t = map (\<lambda>l. l = 2) (labels t)"
      "seeds t = seeds_from_mask example_lib (seed_mask t) (affine t) [2, 2, 2]"
      "\<forall>q \<in> set (seeds t). nat \<lfloor>fst q\<rfloor> < length (white_matter t)
          \<and> white_matter t ! nat \<lfloor>fst q\<rfloor>"
    by blast
  have l: "labels t = [0, 1, 2, 2]" unfolding t(2) lnd ..
  have s: "seeds t = [(2, 0, 0), (3, 0, 0)]"
    unfolding t(4) sfm t(3) l by (simp add: upt_rec)
  have m: "(2, 0, 0) \<in> set (seeds t)" "(3, 0, 0) \<in> set (seeds t)" by (simp_all add: s)
  from t(5) m(1) have "nat \<lfloor>fst (2 :: real, 0 :: real, 0 :: real)\<rfloor> < length (white_matter t)
      \<and> white_matter t ! nat \<lfloor>fst (2 :: real, 0 :: real, 0 :: real)\<rfloor>"
    by (rule bspec)
  moreover from t(5) m(2) have "nat \<lfloor>fst (3 :: real, 0 :: real, 0 :: real)\<rfloor> < length (white_matter t)
      \<and> white_matter t ! nat \<lfloor>fst (3 :: real, 0 :: real, 0 :: real)\<rfloor>"
    by (rule bspec)
  ultimately have "white_matter t ! 2" "white_matter t ! 3"
    "nat \<lfloor>fst (2 :: real, 0 :: real, 0 :: real)\<rfloor> < length (white_matter t)"
    by simp_all
  with t(1) l s show ?thesis by blast
qed

section \<open>Files written\<close>



section \<open>Files read\<close>



section \<open>What the brain mask influences\<close>

lemma run_related:
  assumes "list_all2 (\<lambda>f g. \<forall>s. f (u s) = map_sum id u (g s)) fs gs"
  shows "run fs (u s) = map_sum id u (run gs s)"
  using assms
proof (induction fs gs arbitrary: s rule: list_all2_induct)
  case Nil
  then show ?case by simp
next
  case (Cons f fs g gs)
  then show ?case by (cases "g s") simp_all
qed

lemma for_range_related:
  assumes "\<And>i s. body (i :: nat) (u s) = map_sum id u (body' i s)"
  shows "for_range is body (u s) = map_sum id u (for_range is body' s)"
proof (induction "is" arbitrary: s)
  case Nil
  then show ?case by simp
next
  case (Cons i "is")
  then show ?case by (cases "body' i s") (simp_all add: assms)
qed

lemma smooth_volume_maskdata:
  "smooth_volume L v (s\<lparr>maskdata := m\<rparr>) = map_sum id (maskdata_update (\<lambda>_. m)) (smooth_volume L v s)"
  by (simp add: smooth_volume_def getitem_last_def setitem_last_def called_def)

lemma smooth_volume_mask:
  "smooth_volume (L\<lparr>dki_fit := F\<rparr>) v s = smooth_volume L v s"
  "smooth_volume L v (s\<lparr>mask := w\<rparr>) = map_sum id (mask_update (\<lambda>_. w)) (smooth_volume L v s)"
  by (simp_all add: smooth_volume_def getitem_last_def setitem_last_def called_def)

lemma smooth_loop_maskdata:
  "for_range is (smooth_volume L) (s\<lparr>maskdata := m\<rparr>)
     = map_sum id (maskdata_update (\<lambda>_. m)) (for_range is (smooth_volume L) s)"
  by (rule for_range_related) (rule smooth_volume_maskdata)

lemma smooth_loop_mask:
  "for_range is (smooth_volume L) (s\<lparr>mask := w\<rparr>)
     = map_sum id (mask_update (\<lambda>_. w)) (for_range is (smooth_volume (L\<lparr>dki_fit := F\<rparr>)) s)"
  by (rule for_range_related) (simp add: smooth_volume_mask)

lemmas wmti_cells =
  wmti_cell2_def wmti_cell3_def wmti_cell4_def wmti_cell5_def wmti_cell6_def wmti_cell7_def
  wmti_cell8_def

lemma rest_ignores_maskdata:
  "list_all2 (\<lambda>f g. \<forall>s. f (maskdata_update (\<lambda>_. m) s) = map_sum id (maskdata_update (\<lambda>_. m)) (g s))
     (drop 5 (wmti_notebook L)) (drop 5 (wmti_notebook L))"
  by (simp add: wmti_notebook_def wmti_cells called_def new_array_def writing_def
      setitem_mask_def smooth_loop_maskdata)

lemma rest_mask_only_in_fit:
  "list_all2 (\<lambda>f g. \<forall>s. f (mask_update (\<lambda>_. w) s) = map_sum id (mask_update (\<lambda>_. w)) (g s))
     (drop 5 (wmti_notebook L))
     (drop 5 (wmti_notebook (L\<lparr>dki_fit := \<lambda>m d _. dki_fit L m d w\<rparr>)))"
  by (simp add: wmti_notebook_def wmti_cells called_def new_array_def writing_def
      setitem_mask_def smooth_loop_mask)

text \<open>
  C9. The fifth statement of the WMTI notebook binds \<open>maskdata\<close> and \<open>mask\<close> to the result of
  \<open>median_otsu\<close>; \<open>rest\<close> is everything after it. Running \<open>rest\<close> with another value of
  \<open>maskdata\<close> gives the same outcome (the same exception, or the same final state) but for the
  variable \<open>maskdata\<close> itself: in particular \<open>data_smooth\<close>, both fits, the arrays \<open>AWF\<close> and
  \<open>TORT\<close>, the figure and the file written are the same for any two values. Running
  \<open>rest\<close> with another value \<open>w\<close> of \<open>mask\<close> is running it with \<open>w\<close> as the mask argument
  of the DKI fit: \<open>mask\<close> enters nowhere else. The smoothing is applied to the volumes of
  \<open>data\<close>.
\<close>

theorem maskdata_never_read:
  fixes L :: "'o dipy" and s :: "'o wmti_state"
  defines "rest \<equiv> drop 5 (wmti_notebook L)"
  defines "sigma \<equiv> fl_div L (Fin 1.25) (np_sqrt L (fl_mul L (Fin 8) (np_log L (Fin 2))))"
  defines "outputs \<equiv> (\<lambda>t :: 'o wmti_state.
      (data_smooth t, dkifit t, dki_micro_fit t, arrays t (AWF t), arrays t (TORT t), fig1 t,
       written t))"
  shows "wmti_notebook L ! 4 =
      (\<lambda>s. case median_otsu L (data s) [0, 1] (Some 4) 2 (Some False) 1 of
             (md, m) \<Rightarrow> Inr (called ''median_otsu'' (s\<lparr>maskdata := md, mask := m\<rparr>)))
    \<and> run rest (s\<lparr>maskdata := m1\<rparr>) = map_sum id (\<lambda>t. t\<lparr>maskdata := m1\<rparr>) (run rest s)
    \<and> map_sum id outputs (run rest (s\<lparr>maskdata := m1\<rparr>))
        = map_sum id outputs (run rest (s\<lparr>maskdata := m2\<rparr>))
    \<and> run rest (s\<lparr>mask := w\<rparr>)
        = map_sum id (\<lambda>t. t\<lparr>mask := w\<rparr>)
            (run (drop 5 (wmti_notebook (L\<lparr>dki_fit := \<lambda>m d _. dki_fit L m d w\<rparr>))) s)
    \<and> ((\<forall>vol \<in> set (vols (data s)). length (gaussian_filter L vol sigma) = nvox (data s)) \<longrightarrow>
        map_sum id data_smooth (run (wmti_cell3 L) s)
          = Inr \<lparr>nvox = nvox (data s),
                 vols = map (\<lambda>vol. gaussian_filter L vol sigma) (vols (data s))\<rparr>)"
proof (intro conjI impI)
  show "wmti_notebook L ! 4 =
      (\<lambda>s. case median_otsu L (data s) [0, 1] (Some 4) 2 (Some False) 1 of
             (md, m) \<Rightarrow> Inr (called ''median_otsu'' (s\<lparr>maskdata := md, mask := m\<rparr>)))"
    by (simp add: wmti_notebook_def wmti_cell2_def wmti_cell3_def)
next
  have a: "run rest (s\<lparr>maskdata := m\<rparr>) = map_sum id (maskdata_update (\<lambda>_. m)) (run rest s)"
    for m
    unfolding rest_def by (rule run_related) (rule rest_ignores_maskdata)
  show "run rest (s\<lparr>maskdata := m1\<rparr>) = map_sum id (\<lambda>t. t\<lparr>maskdata := m1\<rparr>) (run rest s)"
    by (rule a)
  have b: "outputs \<circ> maskdata_update (\<lambda>_. m) = outputs" for m
    by (rule ext) (simp add: outputs_def)
  show "map_sum id outputs (run rest (s\<lparr>maskdata := m1\<rparr>))
        = map_sum id outputs (run rest (s\<lparr>maskdata := m2\<rparr>))"
    by (simp add: a sum.map_comp b)
next
  show "run rest (s\<lparr>mask := w\<rparr>)
        = map_sum id (\<lambda>t. t\<lparr>mask := w\<rparr>)
            (run (drop 5 (wmti_notebook (L\<lparr>dki_fit := \<lambda>m d _. dki_fit L m d w\<rparr>))) s)"
    unfolding rest_def by (rule run_related) (rule rest_mask_only_in_fit)
next
  assume "\<forall>vol \<in> set (vols (data s)). length (gaussian_filter L vol sigma) = nvox (data s)"
  then show "map_sum id data_smooth (run (wmti_cell3 L) s)
          = Inr \<lparr>nvox = nvox (data s),
                 vols = map (\<lambda>vol. gaussian_filter L vol sigma) (vols (data s))\<rparr>"
    unfolding sigma_def by (simp add: cell3_result)
qed

theorem maskdata_never_read_witness:
  "map_sum id data_smooth (run (wmti_cell3 example_lib)
        ((wmti_start 0)\<lparr>data := \<lparr>nvox = 4, vols = [[Fin 1, Fin 2, Fin 3, Fin 4],
                                                   [Fin 5, Fin 6, Fin 7, Fin 8]]\<rparr>\<rparr>))
     = Inr \<lparr>nvox = 4, vols = [[Fin 0.5, Fin 1, Fin 1.5, Fin 2], [Fin 2.5, Fin 3, Fin 3.5, Fin 4]]\<rparr>
   \<and> map_sum id written (run (drop 5 (wmti_notebook example_lib))
        ((wmti_start 0)\<lparr>maskdata := \<lparr>nvox = 1, vols = [[NaN]]\<rparr>\<rparr>))
     = map_sum id written (run (drop 5 (wmti_notebook example_lib)) (wmti_start 0))"
proof -
  define s0 :: "nat wmti_state" where
    "s0 = (wmti_start 0)\<lparr>data := \<lparr>nvox = 4, vols = [[Fin 1, Fin 2, Fin 3, Fin 4],
                                                   [Fin 5, Fin 6, Fin 7, Fin 8]]\<rparr>\<rparr>"
  have d: "data s0 = \<lparr>nvox = 4, vols = [[Fin 1, Fin 2, Fin 3, Fin 4],
                                                   [Fin 5, Fin 6, Fin 7, Fin 8]]\<rparr>"
    by (simp add: s0_def wmti_start_def)
  have gf: "gaussian_filter example_lib a sg
      = map (\<lambda>x. case x of Fin r \<Rightarrow> Fin (r / 2) | y \<Rightarrow> y) a" for a sg
    by (simp add: example_lib_def)
  have h: "\<forall>vol \<in> set (vols (data s0)).
      length (gaussian_filter example_lib vol
        (fl_div example_lib (Fin 1.25) (np_sqrt example_lib
           (fl_mul example_lib (Fin 8) (np_log example_lib (Fin 2)))))) = nvox (data s0)"
    unfolding gf by (simp add: d)
  from maskdata_never_read [where L = example_lib and s = s0, THEN conjunct2, THEN conjunct2, THEN conjunct2,
      THEN conjunct2, THEN mp, OF h]
  have A: "map_sum id data_smooth (run (wmti_cell3 example_lib) s0)
     = Inr \<lparr>nvox = 4, vols = [[Fin 0.5, Fin 1, Fin 1.5, Fin 2], [Fin 2.5, Fin 3, Fin 3.5, Fin 4]]\<rparr>"
    unfolding gf by (simp add: d)
  have c: "written \<circ> maskdata_update (\<lambda>_. m) = (written :: nat wmti_state \<Rightarrow> _)" for m
    by (rule ext) simp
  have B: "map_sum id written (run (drop 5 (wmti_notebook example_lib))
        ((wmti_start 0)\<lparr>maskdata := \<lparr>nvox = 1, vols = [[NaN]]\<rparr>\<rparr>))
     = map_sum id written (run (drop 5 (wmti_notebook example_lib)) (wmti_start 0))"
    unfolding maskdata_never_read [where L = example_lib and s = "wmti_start 0",
        THEN conjunct2, THEN conjunct1]
    by (simp add: sum.map_comp c)
  from A B show ?thesis unfolding s0_def by (intro conjI)
qed

section \<open>The order of the steps\<close>








end
